theory Spec2Isabelle
  imports Complex_Main "HOL-Library.Char_ord" "HOL-Library.List_Lexorder"
begin

section \<open>The energy dashboard: data model\<close>

text \<open>
  The module \<^verbatim>\<open>energy_dashboard_module.py\<close> polls a Modbus instrument, classifies each
  reading against configured thresholds, inserts it into an SQLite table and renders the
  ten newest rows. The embedding below follows the module function by function.

  Python floats are idealised as \<^typ>\<open>real\<close>: the comparisons of the classifier are
  exact on floats, and the divisions of the reader are the module's own \<^verbatim>\<open>/ 100.0\<close>
  and \<^verbatim>\<open>/ 1000.0\<close>. Exceptions are values of \<open>py_error\<close>; everything the module
  shows or waits for is an \<open>event\<close> of the trace.
\<close>

datatype py_error =
    KeyError string
  | TypeError string
  | IntegrityError string
  | OperationalError string

text \<open>
  The configuration is the dictionary returned by \<^verbatim>\<open>json.load\<close>; only its numeric
  entries are read by the functions modelled here. \<^verbatim>\<open>config[k]\<close> raises
  \<^verbatim>\<open>KeyError\<close> on a missing key.
\<close>

type_synonym config = "string \<rightharpoonup> real"

definition config_get :: "config \<Rightarrow> string \<Rightarrow> py_error + real" where
  "config_get config k = (case config k of None \<Rightarrow> Inl (KeyError k) | Some x \<Rightarrow> Inr x)"

text \<open>
  The instrument is the external \<^verbatim>\<open>minimalmodbus.Instrument\<close>. One call
  \<^verbatim>\<open>instrument.read_register(a, 3, signed=False)\<close> either raises an exception
  (\<open>Inl\<close> with its description) or returns a number (\<open>Inr\<close>). Within one cycle every
  address is read at most once, so the instrument of a cycle is a function of the address.
\<close>

type_synonym instrument = "nat \<Rightarrow> string + real"

text \<open>
  What such a call returns is fixed by the library. Its signature is
  \<^verbatim>\<open>read_register(registeraddress, number_of_decimals=0, functioncode=3, signed=False)\<close>:
  it reads one holding register, an unsigned 16-bit number, and returns its content
  divided by 10 to the power \<^verbatim>\<open>number_of_decimals\<close>; a failed transaction raises.
  \<open>registers\<close> is the device as the transaction sees it: per address the register
  content, or the description of the failure. A register holds at most 65535; what is
  proved below for every natural number holds for every register content.
\<close>

type_synonym registers = "nat \<Rightarrow> string + nat"

definition read_register :: "registers \<Rightarrow> nat \<Rightarrow> nat \<Rightarrow> string + real" where
  "read_register device registeraddress number_of_decimals =
     (case device registeraddress of
        Inl e \<Rightarrow> Inl e
      | Inr raw \<Rightarrow> Inr (real raw / 10 ^ number_of_decimals))"

text \<open>
  The five calls of lines 57 to 61 all pass 3 in second position, so the instrument the
  module reads is \<open>read_register\<close> with \<^verbatim>\<open>number_of_decimals = 3\<close>.
\<close>

definition minimalmodbus_instrument :: "registers \<Rightarrow> instrument" where
  "minimalmodbus_instrument device registeraddress = read_register device registeraddress 3"

text \<open>One row of the table \<^verbatim>\<open>readings\<close> created by \<^verbatim>\<open>create_table\<close>.\<close>

record reading_row =
  timestamp_col :: string
  voltage_col :: real
  current_col :: real
  power_factor_col :: real
  power_col :: real
  energy_col :: real
  anomaly_col :: int

text \<open>
  The connection holds the table \<^verbatim>\<open>readings\<close> in insertion order, or \<open>None\<close> while
  the database file has no such table.
\<close>

type_synonym connection = "reading_row list option"

datatype event =
    StError string
  | Metrics real real real real real
  | StWarning string
  | Dataframe "reading_row list"
  | PlotlyChart "reading_row list"
  | Slept real

section \<open>The functions of the module\<close>

definition create_table :: "connection \<Rightarrow> connection" where
  "create_table conn = (case conn of None \<Rightarrow> Some [] | Some table \<Rightarrow> Some table)"

text \<open>
  \<^verbatim>\<open>read_modbus_data_async\<close>: five register reads in sequence inside one
  \<^verbatim>\<open>try\<close>; the first exception leaves the block, reports through \<^verbatim>\<open>st.error\<close>
  and returns five \<^verbatim>\<open>None\<close>.
\<close>

type_synonym reading_tuple =
  "real option \<times> real option \<times> real option \<times> real option \<times> real option"

definition modbus_failure :: "string \<Rightarrow> reading_tuple \<times> event list" where
  "modbus_failure e =
     ((None, None, None, None, None), [StError (''Modbus read error: '' @ e)])"

definition read_modbus_data_async :: "instrument \<Rightarrow> reading_tuple \<times> event list" where
  "read_modbus_data_async instrument =
     (case instrument 0 of Inl e \<Rightarrow> modbus_failure e | Inr r0 \<Rightarrow>
      let voltage = r0 / 100 in
      case instrument 2 of Inl e \<Rightarrow> modbus_failure e | Inr r2 \<Rightarrow>
      let current = r2 / 100 in
      case instrument 4 of Inl e \<Rightarrow> modbus_failure e | Inr r4 \<Rightarrow>
      let power_factor = r4 / 1000 in
      case instrument 6 of Inl e \<Rightarrow> modbus_failure e | Inr r6 \<Rightarrow>
      let pwr = r6 / 100 in
      case instrument 8 of Inl e \<Rightarrow> modbus_failure e | Inr r8 \<Rightarrow>
      let energy = r8 / 1000 in
      ((Some voltage, Some current, Some power_factor, Some pwr, Some energy), []))"

text \<open>
  \<^verbatim>\<open>detect_anomaly\<close>. Python's \<^verbatim>\<open>or\<close> does not evaluate its right operand when the
  left one is true, so \<^verbatim>\<open>config['anomaly_voltage_low']\<close> is looked up only when the
  voltage is not above the high threshold.
\<close>

definition detect_anomaly :: "real \<Rightarrow> real \<Rightarrow> real \<Rightarrow> config \<Rightarrow> py_error + int" where
  "detect_anomaly voltage current pwr config =
     (let anomaly = 0 in
      case config_get config ''anomaly_voltage_high'' of Inl e \<Rightarrow> Inl e | Inr vh \<Rightarrow>
      case (if voltage > vh then Inr True
            else case config_get config ''anomaly_voltage_low'' of
                   Inl e \<Rightarrow> Inl e | Inr vl \<Rightarrow> Inr (voltage < vl)) of
        Inl e \<Rightarrow> Inl e
      | Inr out_of_band \<Rightarrow>
      let anomaly = (if out_of_band then 1 else anomaly) in
      case config_get config ''anomaly_current_high'' of Inl e \<Rightarrow> Inl e | Inr ch \<Rightarrow>
      let anomaly = (if current > ch then 1 else anomaly) in
      case config_get config ''anomaly_power_high'' of Inl e \<Rightarrow> Inl e | Inr ph \<Rightarrow>
      let anomaly = (if pwr > ph then 1 else anomaly) in
      Inr anomaly)"

text \<open>
  \<^verbatim>\<open>store_data\<close>: one \<^verbatim>\<open>INSERT\<close> and a commit. The column \<^verbatim>\<open>timestamp\<close> is the
  primary key of the table, so SQLite refuses a row whose timestamp is already stored
  (\<^verbatim>\<open>sqlite3.IntegrityError\<close>) and the table keeps its rows. The function returns the
  connection after the call together with the outcome.
\<close>

definition store_data ::
  "connection \<Rightarrow> string \<Rightarrow> real \<Rightarrow> real \<Rightarrow> real \<Rightarrow> real \<Rightarrow> real \<Rightarrow> int
     \<Rightarrow> connection \<times> (py_error + unit)" where
  "store_data conn timestamp voltage current power_factor pwr energy anomaly =
     (case conn of
        None \<Rightarrow> (conn, Inl (OperationalError ''no such table: readings''))
      | Some table \<Rightarrow>
          if timestamp \<in> set (map timestamp_col table)
          then (conn, Inl (IntegrityError ''UNIQUE constraint failed: readings.timestamp''))
          else (Some (table @
                  [\<lparr>timestamp_col = timestamp, voltage_col = voltage, current_col = current,
                    power_factor_col = power_factor, power_col = pwr, energy_col = energy,
                    anomaly_col = anomaly\<rparr>]), Inr ()))"

text \<open>
  The query of line 109,
  \<^verbatim>\<open>SELECT * FROM readings ORDER BY timestamp DESC LIMIT 10\<close>: the rows by descending
  timestamp (text comparison, byte by byte), at most ten of them. A \<^verbatim>\<open>SELECT\<close> writes
  nothing, so the connection comes back as it was.
\<close>

definition read_sql_query :: "connection \<Rightarrow> connection \<times> (py_error + reading_row list)" where
  "read_sql_query conn =
     (case conn of
        None \<Rightarrow> (conn, Inl (OperationalError ''no such table: readings''))
      | Some table \<Rightarrow> (conn, Inr (take 10 (rev (sort_key timestamp_col table)))))"

text \<open>
  \<open>sleep_step\<close> is line 118, \<^verbatim>\<open>await asyncio.sleep(config['refresh_rate'])\<close>, the
  last statement of every pass.
\<close>

definition sleep_step :: "config \<Rightarrow> connection \<Rightarrow> event list
    \<Rightarrow> connection \<times> event list \<times> py_error option" where
  "sleep_step config conn evs =
     (case config_get config ''refresh_rate'' of
        Inl e \<Rightarrow> (conn, evs, Some e)
      | Inr r \<Rightarrow> (conn, evs @ [Slept r], None))"

text \<open>
  One pass through the body of the \<^verbatim>\<open>while True\<close> loop of \<^verbatim>\<open>update_dashboard\<close>.
  The timestamp is the clock reading taken at the start of the pass. The result is the
  connection, the events of the pass and the exception that left the loop, if any.

  After \<^verbatim>\<open>voltage is not None\<close> the module uses the other four values as numbers; a
  \<^verbatim>\<open>None\<close> among them would raise \<^verbatim>\<open>TypeError\<close>.
\<close>

definition update_dashboard_cycle ::
  "config \<Rightarrow> connection \<Rightarrow> string \<Rightarrow> instrument
     \<Rightarrow> connection \<times> event list \<times> py_error option" where
  "update_dashboard_cycle config conn timestamp instrument =
     (case read_modbus_data_async instrument of
        ((voltage, current, power_factor, pwr, energy), evs) \<Rightarrow>
          (case voltage of
             None \<Rightarrow> sleep_step config conn evs
           | Some v \<Rightarrow>
               (case (current, power_factor, pwr, energy) of
                  (Some c, Some f, Some p, Some e) \<Rightarrow>
                    (case detect_anomaly v c p config of
                       Inl err \<Rightarrow> (conn, evs, Some err)
                     | Inr anomaly \<Rightarrow>
                         (case store_data conn timestamp v c f p e anomaly of
                            (conn1, Inl err) \<Rightarrow> (conn1, evs, Some err)
                          | (conn1, Inr u) \<Rightarrow>
                              let evs1 = evs @ [Metrics v c f p e]
                                           @ (if anomaly \<noteq> 0
                                              then [StWarning ''Anomaly Detected!''] else [])
                              in (case read_sql_query conn1 of
                                    (conn2, Inl err) \<Rightarrow> (conn2, evs1, Some err)
                                  | (conn2, Inr df) \<Rightarrow>
                                      sleep_step config conn2
                                        (evs1 @ [Dataframe df, PlotlyChart df]))))
                | _ \<Rightarrow> (conn, evs, Some (TypeError ''NoneType'')))))"

text \<open>
  The loop itself never returns. It is run here on the clock readings and instrument
  behaviours of finitely many passes: the result is the state after the last of them, or
  at the exception that ended the loop.
\<close>

fun update_dashboard_loop ::
  "config \<Rightarrow> connection \<Rightarrow> (string \<times> instrument) list
     \<Rightarrow> connection \<times> event list \<times> py_error option" where
  "update_dashboard_loop config conn [] = (conn, [], None)"
| "update_dashboard_loop config conn ((timestamp, instrument) # rest) =
     (case update_dashboard_cycle config conn timestamp instrument of
        (conn1, evs, Some err) \<Rightarrow> (conn1, evs, Some err)
      | (conn1, evs, None) \<Rightarrow>
          (case update_dashboard_loop config conn1 rest of
             (conn2, evs2, res) \<Rightarrow> (conn2, evs @ evs2, res)))"

definition update_dashboard ::
  "connection \<Rightarrow> config \<Rightarrow> (string \<times> instrument) list
     \<Rightarrow> connection \<times> event list \<times> py_error option" where
  "update_dashboard db_file config passes =
     update_dashboard_loop config (create_table db_file) passes"

text \<open>
  \<open>store_rows\<close> is a sequence of calls of \<open>store_data\<close>, one per row and in the order
  of the list, stopping at the first exception.
\<close>

fun store_rows :: "connection \<Rightarrow> reading_row list \<Rightarrow> connection \<times> (py_error + unit)" where
  "store_rows conn [] = (conn, Inr ())"
| "store_rows conn (r # rs) =
     (case store_data conn (timestamp_col r) (voltage_col r) (current_col r)
             (power_factor_col r) (power_col r) (energy_col r) (anomaly_col r) of
        (conn1, Inl e) \<Rightarrow> (conn1, Inl e)
      | (conn1, Inr u) \<Rightarrow> store_rows conn1 rs)"

subsection \<open>Concrete inputs\<close>

definition example_config :: config where
  "example_config =
     [''anomaly_voltage_high'' \<mapsto> 250, ''anomaly_voltage_low'' \<mapsto> 200,
      ''anomaly_current_high'' \<mapsto> 10, ''anomaly_power_high'' \<mapsto> 2000,
      ''refresh_rate'' \<mapsto> 5]"

definition example_instrument :: instrument where
  "example_instrument a =
     (if a = 0 then Inr 23500 else if a = 2 then Inr 500 else if a = 4 then Inr 950
      else if a = 6 then Inr 220000 else if a = 8 then Inr 1500
      else Inl ''illegal data address'')"

definition failing_instrument :: instrument where
  "failing_instrument a = (if a = 4 then Inl ''timeout'' else example_instrument a)"

definition example_rows :: "reading_row list" where
  "example_rows =
     [\<lparr>timestamp_col = ''2024-01-01 00:00:00'', voltage_col = 235, current_col = 5,
       power_factor_col = 95 / 100, power_col = 2200, energy_col = 15 / 10, anomaly_col = 1\<rparr>,
      \<lparr>timestamp_col = ''2024-01-01 00:00:05'', voltage_col = 230, current_col = 4,
       power_factor_col = 9 / 10, power_col = 900, energy_col = 16 / 10, anomaly_col = 0\<rparr>,
      \<lparr>timestamp_col = ''2024-01-01 00:00:10'', voltage_col = 231, current_col = 4,
       power_factor_col = 9 / 10, power_col = 910, energy_col = 17 / 10, anomaly_col = 0\<rparr>]"

definition meter_registers :: registers where
  "meter_registers a =
     (if a = 0 then Inr 23500 else if a = 2 then Inr 500 else if a = 4 then Inr 950
      else if a = 6 then Inr 22000 else if a = 8 then Inr 1500
      else Inl ''illegal data address'')"


definition other_instrument :: instrument where
  "other_instrument a =
     (if a = 4 then Inr 500 else if a = 8 then Inr 99000 else example_instrument a)"

subsection \<open>The anomaly column holds a flag\<close>

text \<open>
  The schema declares \<^verbatim>\<open>anomaly INTEGER\<close>. \<open>anomaly_flags_ok\<close> holds of a
  connection whose rows all have 0 or 1 in that column.
\<close>

definition anomaly_flags_ok :: "connection \<Rightarrow> bool" where
  "anomaly_flags_ok conn =
     (case conn of
        None \<Rightarrow> True
      | Some table \<Rightarrow> \<forall>row\<in>set table. anomaly_col row = 0 \<or> anomaly_col row = 1)"

section \<open>The anomaly classifier\<close>

lemma config_get_Some: "config k = Some x \<Longrightarrow> config_get config k = Inr x"
  by (simp add: config_get_def)

text \<open>
  C1. With the four thresholds configured, \<open>detect_anomaly\<close> returns 1 exactly when
  voltage > voltage_high, voltage < voltage_low, current > current_high or
  power > power_high holds, and 0 otherwise. The comparisons are strict: a reading
  whose voltage, current and power equal their high thresholds, with the voltage not
  below the low threshold, is not flagged; a reading strictly beyond any one bound is.
\<close>

theorem detect_anomaly_strict:
  assumes "config ''anomaly_voltage_high'' = Some vh"
    and "config ''anomaly_voltage_low'' = Some vl"
    and "config ''anomaly_current_high'' = Some ch"
    and "config ''anomaly_power_high'' = Some ph"
  shows "detect_anomaly v c p config =
           Inr (if v > vh \<or> v < vl \<or> c > ch \<or> p > ph then 1 else 0)
         \<and> (v = vh \<and> c = ch \<and> p = ph \<and> v \<ge> vl \<longrightarrow> detect_anomaly v c p config = Inr 0)
         \<and> (v > vh \<or> v < vl \<or> c > ch \<or> p > ph \<longrightarrow> detect_anomaly v c p config = Inr 1)"
  using assms by (simp add: detect_anomaly_def config_get_Some)

lemma example_config_simps:
  "example_config ''anomaly_voltage_high'' = Some 250"
  "example_config ''anomaly_voltage_low'' = Some 200"
  "example_config ''anomaly_current_high'' = Some 10"
  "example_config ''anomaly_power_high'' = Some 2000"
  "example_config ''refresh_rate'' = Some 5"
  by (simp_all add: example_config_def)

theorem detect_anomaly_strict_witness:
  "detect_anomaly 250 10 2000 example_config = Inr 0
   \<and> detect_anomaly 251 10 2000 example_config = Inr 1
   \<and> detect_anomaly 199 10 2000 example_config = Inr 1"
  using detect_anomaly_strict [OF example_config_simps(1-4), of 250 10 2000]
    detect_anomaly_strict [OF example_config_simps(1-4), of 251 10 2000]
    detect_anomaly_strict [OF example_config_simps(1-4), of 199 10 2000]
  by simp

section \<open>The device read\<close>

lemma read_modbus_returned_values:
  assumes "instrument 0 = Inr r0" and "instrument 2 = Inr r2" and "instrument 4 = Inr r4"
    and "instrument 6 = Inr r6" and "instrument 8 = Inr r8"
  shows "read_modbus_data_async instrument =
           ((Some (r0 / 100), Some (r2 / 100), Some (r4 / 1000), Some (r6 / 100),
             Some (r8 / 1000)), [])"
  using assms by (simp add: read_modbus_data_async_def)

text \<open>
  C2. The specification gives the reading as raw0/100, raw2/100, raw4/1000, raw6/100 and
  raw8/1000 of the register contents. The module does not compute that: each call
  passes 3 as \<^verbatim>\<open>number_of_decimals\<close>, the library divides the register by 1000, and
  the module divides the quotient again. From the registers raw0, raw2, raw4, raw6 and
  raw8 the module returns raw0/100000, raw2/100000, raw4/1000000, raw6/100000 and
  raw8/1000000, which differs from the specified reading whenever a register is not
  zero. With \<^verbatim>\<open>number_of_decimals = 0\<close> the same five lines return the specified
  reading.
\<close>

theorem read_modbus_register_scaling:
  assumes "device 0 = Inr raw0" and "device 2 = Inr raw2" and "device 4 = Inr raw4"
    and "device 6 = Inr raw6" and "device 8 = Inr raw8"
  shows "fst (read_modbus_data_async (minimalmodbus_instrument device)) =
           (Some (real raw0 / 100000), Some (real raw2 / 100000), Some (real raw4 / 1000000),
            Some (real raw6 / 100000), Some (real raw8 / 1000000))
         \<and> (raw0 \<noteq> 0 \<or> raw2 \<noteq> 0 \<or> raw4 \<noteq> 0 \<or> raw6 \<noteq> 0 \<or> raw8 \<noteq> 0 \<longrightarrow>
              fst (read_modbus_data_async (minimalmodbus_instrument device)) \<noteq>
                (Some (real raw0 / 100), Some (real raw2 / 100), Some (real raw4 / 1000),
                 Some (real raw6 / 100), Some (real raw8 / 1000)))
         \<and> fst (read_modbus_data_async (\<lambda>a. read_register device a 0)) =
              (Some (real raw0 / 100), Some (real raw2 / 100), Some (real raw4 / 1000),
               Some (real raw6 / 100), Some (real raw8 / 1000))"
proof -
  have "read_modbus_data_async (minimalmodbus_instrument device) =
          ((Some (real raw0 / 10 ^ 3 / 100), Some (real raw2 / 10 ^ 3 / 100),
            Some (real raw4 / 10 ^ 3 / 1000), Some (real raw6 / 10 ^ 3 / 100),
            Some (real raw8 / 10 ^ 3 / 1000)), [])"
    by (rule read_modbus_returned_values)
      (simp_all add: minimalmodbus_instrument_def read_register_def assms)
  moreover have "read_modbus_data_async (\<lambda>a. read_register device a 0) =
          ((Some (real raw0 / 10 ^ 0 / 100), Some (real raw2 / 10 ^ 0 / 100),
            Some (real raw4 / 10 ^ 0 / 1000), Some (real raw6 / 10 ^ 0 / 100),
            Some (real raw8 / 10 ^ 0 / 1000)), [])"
    by (rule read_modbus_returned_values) (simp_all add: read_register_def assms)
  ultimately show ?thesis by simp
qed

theorem read_modbus_register_scaling_witness:
  "fst (read_modbus_data_async (minimalmodbus_instrument meter_registers)) =
     (Some 0.235, Some 0.005, Some 0.00095, Some 0.22, Some 0.0015)
   \<and> fst (read_modbus_data_async (minimalmodbus_instrument meter_registers)) \<noteq>
     (Some 235, Some 5, Some 0.95, Some 220, Some 1.5)
   \<and> fst (read_modbus_data_async (\<lambda>a. read_register meter_registers a 0)) =
     (Some 235, Some 5, Some 0.95, Some 220, Some 1.5)"
  using read_modbus_register_scaling [of meter_registers 23500 500 950 22000 1500]
  by (simp add: meter_registers_def)

text \<open>
  C3. The read is all-or-nothing. If any one of the five register reads raises, all five
  components of the result are \<^verbatim>\<open>None\<close>; otherwise all five are present, each the
  scaled value of its register. No result has some components present and others missing.
\<close>

theorem read_modbus_all_or_nothing:
  "(case read_modbus_data_async instrument of
      ((voltage, current, power_factor, pwr, energy), evs) \<Rightarrow>
        (if \<exists>a\<in>{0, 2, 4, 6, 8}. isl (instrument a)
         then voltage = None \<and> current = None \<and> power_factor = None \<and> pwr = None
              \<and> energy = None
         else voltage = Some (projr (instrument 0) / 100)
              \<and> current = Some (projr (instrument 2) / 100)
              \<and> power_factor = Some (projr (instrument 4) / 1000)
              \<and> pwr = Some (projr (instrument 6) / 100)
              \<and> energy = Some (projr (instrument 8) / 1000)))"
  by (simp add: read_modbus_data_async_def modbus_failure_def split: sum.splits)

theorem read_modbus_all_or_nothing_witness:
  "fst (read_modbus_data_async failing_instrument) = (None, None, None, None, None)
   \<and> fst (read_modbus_data_async example_instrument) =
     (Some 235, Some 5, Some (950 / 1000), Some 2200, Some (1500 / 1000))"
  using read_modbus_all_or_nothing [of failing_instrument]
    read_modbus_all_or_nothing [of example_instrument]
  by (simp add: failing_instrument_def example_instrument_def read_modbus_data_async_def
      modbus_failure_def)

section \<open>The acquisition cycle on a failed read\<close>

lemma read_modbus_failed:
  assumes "a \<in> {0, 2, 4, 6, 8}" and "isl (instrument a)"
  shows "\<exists>e. read_modbus_data_async instrument =
           ((None, None, None, None, None), [StError (''Modbus read error: '' @ e)])"
  using assms
  by (auto simp: read_modbus_data_async_def modbus_failure_def split: sum.splits)

text \<open>
  C4. In a pass in which one of the five register reads raises (and the configuration
  holds \<^verbatim>\<open>refresh_rate\<close>), the pass emits the one diagnostic of the read and then
  sleeps for the configured interval: nothing is classified, stored or rendered, the
  connection is the one the pass started with, no exception leaves the loop, and the
  loop goes on with the next pass on that same connection.
\<close>

theorem failed_read_skips_cycle:
  assumes "a \<in> {0, 2, 4, 6, 8}" and "isl (instrument a)"
    and "config ''refresh_rate'' = Some r"
  shows "(\<exists>e. snd (read_modbus_data_async instrument) =
                [StError (''Modbus read error: '' @ e)])
         \<and> update_dashboard_cycle config conn ts instrument =
               (conn, snd (read_modbus_data_async instrument) @ [Slept r], None)
         \<and> update_dashboard_loop config conn ((ts, instrument) # rest) =
               (case update_dashboard_loop config conn rest of
                  (conn2, evs2, res) \<Rightarrow>
                    (conn2, snd (read_modbus_data_async instrument) @ [Slept r] @ evs2, res))"
proof -
  from assms(1,2) obtain e where
    rd: "read_modbus_data_async instrument =
           ((None, None, None, None, None), [StError (''Modbus read error: '' @ e)])"
    using read_modbus_failed by blast
  have cyc: "update_dashboard_cycle config conn ts instrument =
               (conn, snd (read_modbus_data_async instrument) @ [Slept r], None)"
    by (simp add: update_dashboard_cycle_def rd sleep_step_def config_get_def assms(3))
  show ?thesis
    by (simp add: cyc) (simp add: rd)
qed

theorem failed_read_skips_cycle_witness:
  "update_dashboard_cycle example_config (Some []) ''2024-01-01 00:00:00'' failing_instrument =
     (Some [], [StError ''Modbus read error: timeout'', Slept 5], None)"
  using failed_read_skips_cycle [of 4 failing_instrument example_config 5 "Some []"
      "''2024-01-01 00:00:00''" "[]"]
  by (simp add: failing_instrument_def example_instrument_def example_config_simps
      read_modbus_data_async_def modbus_failure_def)

section \<open>The store\<close>

lemma store_rows_fresh:
  assumes "distinct (map timestamp_col rows)"
    and "set (map timestamp_col rows) \<inter> set (map timestamp_col table) = {}"
  shows "store_rows (Some table) rows = (Some (table @ rows), Inr ())"
  using assms
proof (induction rows arbitrary: table)
  case Nil
  show ?case by simp
next
  case (Cons r rows)
  have fresh: "timestamp_col r \<notin> set (map timestamp_col table)"
    using Cons.prems(2) by auto
  have step: "store_data (Some table) (timestamp_col r) (voltage_col r) (current_col r)
                (power_factor_col r) (power_col r) (energy_col r) (anomaly_col r) =
              (Some (table @ [r]), Inr ())"
    using fresh by (simp add: store_data_def)
  have "store_rows (Some (table @ [r])) rows = (Some ((table @ [r]) @ rows), Inr ())"
    using Cons.prems by (intro Cons.IH) auto
  then show ?case by (simp add: step)
qed

text \<open>
  C5. Storing rows with strictly increasing timestamps into the empty table succeeds for
  every row, and the query of the dashboard then returns them newest first: the ten
  newest in general, and all of them, in reverse order of insertion, when there are at
  most ten.
\<close>

theorem append_then_query_newest_first:
  assumes "sorted_wrt (<) (map timestamp_col rows)"
  shows "(case store_rows (Some []) rows of
            (conn, res) \<Rightarrow>
              res = Inr () \<and> conn = Some rows
              \<and> snd (read_sql_query conn) = Inr (take 10 (rev rows))
              \<and> (length rows \<le> 10 \<longrightarrow> snd (read_sql_query conn) = Inr (rev rows)))"
proof -
  have d: "distinct (map timestamp_col rows)"
    using assms strict_sorted_iff by blast
  have s: "sorted (map timestamp_col rows)"
    using assms strict_sorted_iff by blast
  have st: "store_rows (Some []) rows = (Some rows, Inr ())"
    using store_rows_fresh [OF d, of "[]"] by simp
  have q: "snd (read_sql_query (Some rows)) = Inr (take 10 (rev rows))"
    by (simp add: read_sql_query_def sort_key_id_if_sorted [OF s])
  show ?thesis by (simp add: st q)
qed

theorem append_then_query_newest_first_witness:
  "sorted_wrt (<) (map timestamp_col example_rows)
   \<and> store_rows (Some []) example_rows = (Some example_rows, Inr ())
   \<and> length example_rows \<le> 10
   \<and> snd (read_sql_query (Some example_rows)) = Inr (rev example_rows)"
proof -
  have h: "sorted_wrt (<) (map timestamp_col example_rows)"
    by (simp add: example_rows_def)
  have l: "length example_rows \<le> 10"
    by (simp add: example_rows_def)
  show ?thesis
    using h l append_then_query_newest_first [OF h]
    by (simp split: prod.splits)
qed

text \<open>
  C6. \<open>store_data\<close> with the timestamp of a row already in the table fails with
  \<^verbatim>\<open>IntegrityError\<close>, and the table after the call is the table before it: the stored
  row is neither overwritten nor duplicated.
\<close>

theorem duplicate_timestamp_rejected:
  assumes "row \<in> set table" and "timestamp_col row = ts"
  shows "store_data (Some table) ts v c f p e a =
           (Some table, Inl (IntegrityError ''UNIQUE constraint failed: readings.timestamp''))"
  using assms by (auto simp: store_data_def)

theorem duplicate_timestamp_rejected_witness:
  "store_data (Some example_rows) ''2024-01-01 00:00:05'' 240 3 1 700 2 0 =
     (Some example_rows, Inl (IntegrityError ''UNIQUE constraint failed: readings.timestamp''))"
  using duplicate_timestamp_rejected [of "example_rows ! 1" example_rows "''2024-01-01 00:00:05''"
      240 3 1 700 2 0]
  by (simp add: example_rows_def)

section \<open>One full cycle\<close>



section \<open>The query\<close>







section \<open>What the anomaly flag depends on\<close>

lemma read_modbus_success_trace:
  assumes "fst (read_modbus_data_async instrument) = (Some v, c, f, p, e)"
  shows "snd (read_modbus_data_async instrument) = []"
  using assms
  by (auto simp: read_modbus_data_async_def modbus_failure_def split: sum.splits)

text \<open>
  C9. Two readings with the same voltage, current and power, whatever their power
  factors and energies, are classified alike: on the same connection, timestamp and
  configuration the two passes store the same anomaly flags, raise the same exception
  or none, and show the anomaly warning in the same cases.
\<close>

theorem anomaly_ignores_power_factor_energy:
  assumes "fst (read_modbus_data_async i1) = (Some v, Some c, Some f1, Some p, Some e1)"
    and "fst (read_modbus_data_async i2) = (Some v, Some c, Some f2, Some p, Some e2)"
  shows "map_option (map anomaly_col) (fst (update_dashboard_cycle config conn ts i1)) =
           map_option (map anomaly_col) (fst (update_dashboard_cycle config conn ts i2))
         \<and> snd (snd (update_dashboard_cycle config conn ts i1)) =
             snd (snd (update_dashboard_cycle config conn ts i2))
         \<and> (StWarning ''Anomaly Detected!''
               \<in> set (fst (snd (update_dashboard_cycle config conn ts i1)))
            \<longleftrightarrow> StWarning ''Anomaly Detected!''
               \<in> set (fst (snd (update_dashboard_cycle config conn ts i2))))"
proof -
  have r1: "read_modbus_data_async i1 = ((Some v, Some c, Some f1, Some p, Some e1), [])"
    using assms(1) read_modbus_success_trace [OF assms(1)] by (simp add: prod_eq_iff)
  have r2: "read_modbus_data_async i2 = ((Some v, Some c, Some f2, Some p, Some e2), [])"
    using assms(2) read_modbus_success_trace [OF assms(2)] by (simp add: prod_eq_iff)
  show ?thesis
    by (auto simp: update_dashboard_cycle_def r1 r2 store_data_def read_sql_query_def
        sleep_step_def Let_def split: sum.splits option.splits)
qed

theorem anomaly_ignores_power_factor_energy_witness:
  "map_option (map anomaly_col)
     (fst (update_dashboard_cycle example_config (Some []) ''2024-01-01 00:00:00''
        example_instrument)) =
   map_option (map anomaly_col)
     (fst (update_dashboard_cycle example_config (Some []) ''2024-01-01 00:00:00''
        other_instrument))
   \<and> fst (read_modbus_data_async example_instrument) =
       (Some 235, Some 5, Some 0.95, Some 2200, Some 1.5)
   \<and> fst (read_modbus_data_async other_instrument) =
       (Some 235, Some 5, Some 0.5, Some 2200, Some 99)"
proof -
  have a: "fst (read_modbus_data_async example_instrument) =
       (Some 235, Some 5, Some 0.95, Some 2200, Some 1.5)"
    by (simp add: read_modbus_data_async_def example_instrument_def)
  have b: "fst (read_modbus_data_async other_instrument) =
       (Some 235, Some 5, Some 0.5, Some 2200, Some 99)"
    by (simp add: read_modbus_data_async_def example_instrument_def other_instrument_def)
  show ?thesis
    using a b anomaly_ignores_power_factor_energy [OF a b, of example_config "Some []"
        "''2024-01-01 00:00:00''"]
    by simp
qed

section \<open>The anomaly flag is 0 or 1\<close>

lemma detect_anomaly_range: "detect_anomaly v c p config = Inr a \<Longrightarrow> a = 0 \<or> a = 1"
  by (auto simp: detect_anomaly_def Let_def split: sum.splits if_splits)

lemma update_dashboard_cycle_appends:
  "fst (update_dashboard_cycle config (Some table) ts instrument) = Some table
   \<or> (\<exists>row. fst (update_dashboard_cycle config (Some table) ts instrument)
              = Some (table @ [row])
            \<and> (anomaly_col row = 0 \<or> anomaly_col row = 1))"
  by (auto simp: update_dashboard_cycle_def store_data_def read_sql_query_def sleep_step_def
      Let_def dest: detect_anomaly_range split: prod.splits sum.splits option.splits)

lemma update_dashboard_loop_appends:
  "\<exists>new. fst (update_dashboard_loop config (Some table) passes) = Some (table @ new)
         \<and> (\<forall>row\<in>set new. anomaly_col row = 0 \<or> anomaly_col row = 1)"
proof (induction passes arbitrary: table)
  case Nil
  show ?case by simp
next
  case (Cons pass passes)
  obtain ts instrument where pass: "pass = (ts, instrument)"
    by (cases pass)
  obtain conn1 evs res where
    cyc: "update_dashboard_cycle config (Some table) ts instrument = (conn1, evs, res)"
    by (cases "update_dashboard_cycle config (Some table) ts instrument")
  from update_dashboard_cycle_appends [of config table ts instrument] cyc
  obtain new1 where
    c1: "conn1 = Some (table @ new1)"
    and n1: "\<forall>row\<in>set new1. anomaly_col row = 0 \<or> anomaly_col row = 1"
    by (cases "conn1 = Some table") (fastforce intro: that [of "[]"], fastforce)
  show ?case
  proof (cases res)
    case (Some err)
    then show ?thesis
      using pass cyc c1 n1 by auto
  next
    case None
    from Cons.IH [of "table @ new1"] obtain new2 where
      l: "fst (update_dashboard_loop config (Some (table @ new1)) passes)
            = Some ((table @ new1) @ new2)"
      and n2: "\<forall>row\<in>set new2. anomaly_col row = 0 \<or> anomaly_col row = 1"
      by blast
    have "fst (update_dashboard_loop config (Some table) (pass # passes))
            = Some (table @ (new1 @ new2))"
      using pass cyc c1 None l by (auto split: prod.splits)
    moreover have "\<forall>row\<in>set (new1 @ new2). anomaly_col row = 0 \<or> anomaly_col row = 1"
      using n1 n2 by auto
    ultimately show ?thesis by blast
  qed
qed


lemma update_dashboard_cycle_no_table:
  "fst (update_dashboard_cycle config None ts instrument) = None"
  by (auto simp: update_dashboard_cycle_def store_data_def sleep_step_def
      split: prod.splits sum.splits option.splits)

lemma update_dashboard_cycle_flags:
  assumes "anomaly_flags_ok conn"
  shows "anomaly_flags_ok (fst (update_dashboard_cycle config conn ts instrument))"
proof (cases conn)
  case None
  then show ?thesis
    by (simp add: update_dashboard_cycle_no_table anomaly_flags_ok_def)
next
  case (Some table)
  with assms update_dashboard_cycle_appends [of config table ts instrument]
  show ?thesis
    by (auto simp: anomaly_flags_ok_def)
qed

lemma update_dashboard_loop_flags:
  "anomaly_flags_ok conn \<Longrightarrow> anomaly_flags_ok (fst (update_dashboard_loop config conn passes))"
proof (induction passes arbitrary: conn)
  case Nil
  then show ?case by simp
next
  case (Cons pass passes)
  obtain ts instrument where pass: "pass = (ts, instrument)"
    by (cases pass)
  obtain conn1 evs res where
    cyc: "update_dashboard_cycle config conn ts instrument = (conn1, evs, res)"
    by (cases "update_dashboard_cycle config conn ts instrument")
  have ok1: "anomaly_flags_ok conn1"
    using update_dashboard_cycle_flags [OF Cons.prems, of config ts instrument] cyc by simp
  show ?case
  proof (cases res)
    case (Some err)
    then show ?thesis using pass cyc ok1 by simp
  next
    case None
    then show ?thesis
      using pass cyc Cons.IH [OF ok1] by (auto split: prod.splits)
  qed
qed

text \<open>
  C10. Whatever \<open>detect_anomaly\<close> returns is 0 or 1. A table whose anomaly column
  holds only 0 and 1 stays so through every pass of the loop and through any run of
  \<open>update_dashboard\<close>, and every row the loop appends to a table has anomaly 0 or 1.
\<close>

theorem anomaly_flag_binary:
  "(detect_anomaly v c p config = Inr a \<longrightarrow> a = 0 \<or> a = 1)
   \<and> (anomaly_flags_ok conn \<longrightarrow>
        anomaly_flags_ok (fst (update_dashboard_cycle config conn ts instrument)))
   \<and> (anomaly_flags_ok db_file \<longrightarrow>
        anomaly_flags_ok (fst (update_dashboard db_file config passes)))
   \<and> (\<exists>new. fst (update_dashboard_loop config (Some table) passes) = Some (table @ new)
          \<and> (\<forall>row\<in>set new. anomaly_col row = 0 \<or> anomaly_col row = 1))"
proof -
  have "anomaly_flags_ok db_file \<Longrightarrow> anomaly_flags_ok (create_table db_file)"
    by (simp add: create_table_def anomaly_flags_ok_def split: option.splits)
  then have "anomaly_flags_ok db_file \<Longrightarrow>
        anomaly_flags_ok (fst (update_dashboard db_file config passes))"
    by (simp add: update_dashboard_def update_dashboard_loop_flags)
  then show ?thesis
    using update_dashboard_loop_appends [of config table passes]
      update_dashboard_cycle_flags [of conn config ts instrument]
    by (auto dest: detect_anomaly_range)
qed

theorem anomaly_flag_binary_witness:
  "detect_anomaly 235 5 2200 example_config = Inr 1
   \<and> anomaly_flags_ok (Some example_rows)
   \<and> anomaly_flags_ok (fst (update_dashboard_cycle example_config (Some example_rows)
         ''2024-01-01 00:00:15'' example_instrument))
   \<and> anomaly_flags_ok (fst (update_dashboard (Some example_rows) example_config
         [(''2024-01-01 00:00:15'', example_instrument)]))"
proof -
  have d: "detect_anomaly 235 5 2200 example_config = Inr 1"
    by (simp add: detect_anomaly_def config_get_def example_config_simps)
  have k: "anomaly_flags_ok (Some example_rows)"
    by (simp add: anomaly_flags_ok_def example_rows_def)
  show ?thesis
    using d k anomaly_flag_binary [of 235 5 2200 example_config 1 "Some example_rows"
        "''2024-01-01 00:00:15''" example_instrument "Some example_rows"
        "[(''2024-01-01 00:00:15'', example_instrument)]" example_rows]
    by simp
qed

end
